theory Spec2Isabelle
  imports Main "HOL-Library.AList"
begin

section \<open>Go values and types as the package sees them through reflection\<close>

text \<open>
  The package \<open>structs\<close> walks arbitrary Go values with the \<open>reflect\<close> library.
  The model fixes a universe of Go types that covers every kind the converters
  dispatch on: booleans, the ten sized integer types, strings, channels, pointers,
  slices, arrays, maps, structs and the empty interface \<open>any\<close>.  Floating point,
  complex numbers, functions and user-defined named non-struct types are left out.
\<close>

datatype ikind = KInt | KInt8 | KInt16 | KInt32 | KInt64
  | KUint | KUint8 | KUint16 | KUint32 | KUint64

datatype chandir = BothDir | RecvDir | SendDir

text \<open>
  A struct type carries its name and its fields in declaration order.  A field is
  what \<open>reflect.StructField\<close> holds: \<open>Name\<close>, \<open>Type\<close>, \<open>Tag\<close> (the tag string
  as the list of its \<open>key:"value"\<close> pairs), \<open>PkgPath\<close> (empty exactly for an
  exported field) and \<open>Anonymous\<close> (an embedded field).
\<close>

datatype gtype =
    TBool
  | TInt ikind
  | TString
  | TChan chandir gtype
  | TPtr gtype
  | TSlice gtype
  | TArray nat gtype
  | TMap gtype gtype
  | TStruct string "sfield list"
  | TInterface
and sfield =
    StructField (Name: string) (Type: gtype) (Tag: "(string \<times> string) list")
      (PkgPath: string) (Anonymous: bool)

text \<open>
  A value is what an \<open>any\<close> can hold, so every value knows its dynamic type.
  \<open>VNil\<close> is the nil interface.  Nil pointers, slices, maps and channels are typed
  and distinct from their empty counterparts.  A map is an association list with
  distinct keys; a channel is identified by a number.  A struct value lists its
  fields in declaration order, each with its descriptor.  A slot whose static type
  is an interface holds the dynamic value itself (or \<open>VNil\<close>).
\<close>

datatype gval =
    VNil
  | VBool bool
  | VInt ikind int
  | VString string
  | VChan chandir gtype "nat option"
  | VPtrNil gtype
  | VPtr gval
  | VSliceNil gtype
  | VSlice gtype "gval list"
  | VArray gtype "gval list"
  | VMapNil gtype gtype
  | VMap gtype gtype "(gval \<times> gval) list"
  | VStruct string "(sfield \<times> gval) list"

datatype kind = InvalidKind | BoolKind | IntKind ikind | StringKind | ChanKind | PtrKind
  | SliceKind | ArrayKind | MapKind | StructKind | InterfaceKind

fun Kind :: "gtype \<Rightarrow> kind" where
  "Kind TBool = BoolKind"
| "Kind (TInt k) = IntKind k"
| "Kind TString = StringKind"
| "Kind (TChan d e) = ChanKind"
| "Kind (TPtr e) = PtrKind"
| "Kind (TSlice e) = SliceKind"
| "Kind (TArray n e) = ArrayKind"
| "Kind (TMap k e) = MapKind"
| "Kind (TStruct n fs) = StructKind"
| "Kind TInterface = InterfaceKind"

text \<open>\<open>reflect.TypeOf\<close>: the dynamic type of a value, none for the nil interface.\<close>

fun TypeOf :: "gval \<Rightarrow> gtype option" where
  "TypeOf VNil = None"
| "TypeOf (VBool b) = Some TBool"
| "TypeOf (VInt k n) = Some (TInt k)"
| "TypeOf (VString s) = Some TString"
| "TypeOf (VChan d e c) = Some (TChan d e)"
| "TypeOf (VPtrNil e) = Some (TPtr e)"
| "TypeOf (VPtr v) = (case TypeOf v of None \<Rightarrow> Some (TPtr TInterface) | Some e \<Rightarrow> Some (TPtr e))"
| "TypeOf (VSliceNil e) = Some (TSlice e)"
| "TypeOf (VSlice e vs) = Some (TSlice e)"
| "TypeOf (VArray e vs) = Some (TArray (length vs) e)"
| "TypeOf (VMapNil k e) = Some (TMap k e)"
| "TypeOf (VMap k e m) = Some (TMap k e)"
| "TypeOf (VStruct n fvs) = Some (TStruct n (map fst fvs))"

text \<open>\<open>reflect.ValueOf(x).Kind()\<close>: the kind of the dynamic type, invalid for nil.\<close>

definition ValueKind :: "gval \<Rightarrow> kind" where
  "ValueKind v = (case TypeOf v of None \<Rightarrow> InvalidKind | Some t \<Rightarrow> Kind t)"

text \<open>\<open>Type.Elem\<close> panics on a type without element type; the panic is \<open>None\<close>.\<close>

fun Elem :: "gtype \<Rightarrow> gtype option" where
  "Elem (TChan d e) = Some e"
| "Elem (TPtr e) = Some e"
| "Elem (TSlice e) = Some e"
| "Elem (TArray n e) = Some e"
| "Elem (TMap k e) = Some e"
| "Elem t = None"

text \<open>\<open>reflect.Zero(t)\<close> and \<open>reflect.New(t).Elem()\<close>: the zero value of a type.\<close>

fun Zero :: "gtype \<Rightarrow> gval"
  and ZeroFields :: "sfield list \<Rightarrow> (sfield \<times> gval) list"
  and ZeroField :: "sfield \<Rightarrow> gval" where
  "Zero TBool = VBool False"
| "Zero (TInt k) = VInt k 0"
| "Zero TString = VString []"
| "Zero (TChan d e) = VChan d e None"
| "Zero (TPtr e) = VPtrNil e"
| "Zero (TSlice e) = VSliceNil e"
| "Zero (TArray n e) = VArray e (replicate n (Zero e))"
| "Zero (TMap k e) = VMapNil k e"
| "Zero (TStruct n fs) = VStruct n (ZeroFields fs)"
| "Zero TInterface = VNil"
| "ZeroFields [] = []"
| "ZeroFields (f # fs) = (f, ZeroField f) # ZeroFields fs"
| "ZeroField (StructField n t tg p a) = Zero t"

text \<open>
  \<open>reflect.DeepEqual\<close>.  The package only ever compares a value with the zero value
  of its own type.  A zero value holds no non-nil pointer, slice or map, so deep
  equality with it is equality of the two values.
\<close>

definition DeepEqual :: "gval \<Rightarrow> gval \<Rightarrow> bool" where
  "DeepEqual x y = (x = y)"

subsection \<open>Assignability and conversion between the modelled types\<close>

text \<open>
  \<open>Type.AssignableTo\<close> on the modelled types: identical types, any type into the
  empty interface, and a bidirectional channel into a directional channel type of
  the same element type.
\<close>

fun AssignableTo :: "gtype \<Rightarrow> gtype \<Rightarrow> bool" where
  "AssignableTo v t =
     (v = t \<or> t = TInterface \<or>
      (case (v, t) of (TChan BothDir e, TChan d e') \<Rightarrow> e = e' | _ \<Rightarrow> False))"

fun isInt :: "gtype \<Rightarrow> bool" where
  "isInt (TInt k) = True"
| "isInt t = False"

text \<open>
  \<open>Type.ConvertibleTo\<close>.  The package asks it for targets of leaf kind only, where
  Go converts between any two integer types, and an integer, a byte slice or a rune
  slice to a string.
\<close>

fun ConvertibleTo :: "gtype \<Rightarrow> gtype \<Rightarrow> bool" where
  "ConvertibleTo v t =
     (AssignableTo v t \<or> (isInt v \<and> isInt t) \<or>
      (t = TString \<and> (isInt v \<or> v = TSlice (TInt KUint8) \<or> v = TSlice (TInt KInt32))))"

fun bits :: "ikind \<Rightarrow> nat" where
  "bits KInt = 64" | "bits KInt8 = 8" | "bits KInt16 = 16" | "bits KInt32 = 32" | "bits KInt64 = 64"
| "bits KUint = 64" | "bits KUint8 = 8" | "bits KUint16 = 16" | "bits KUint32 = 32" | "bits KUint64 = 64"

fun isSigned :: "ikind \<Rightarrow> bool" where
  "isSigned KInt = True" | "isSigned KInt8 = True" | "isSigned KInt16 = True"
| "isSigned KInt32 = True" | "isSigned KInt64 = True" | "isSigned k = False"

text \<open>An integer conversion keeps the low bits and reads them in the target type.\<close>

definition wrap :: "ikind \<Rightarrow> int \<Rightarrow> int" where
  "wrap k n =
     (if isSigned k then (n + 2 ^ (bits k - 1)) mod 2 ^ bits k - 2 ^ (bits k - 1)
      else n mod 2 ^ bits k)"

definition byte :: "int \<Rightarrow> char" where
  "byte n = char_of n"

text \<open>The UTF-8 encoding of a code point; an invalid one encodes as U+FFFD.\<close>

definition encodeRune :: "int \<Rightarrow> string" where
  "encodeRune r =
     (if r < 0 \<or> 1114111 < r \<or> (55296 \<le> r \<and> r \<le> 57343) then [byte 239, byte 191, byte 189]
      else if r < 128 then [byte r]
      else if r < 2048 then [byte (192 + r div 64), byte (128 + r mod 64)]
      else if r < 65536 then
        [byte (224 + r div 4096), byte (128 + (r div 64) mod 64), byte (128 + r mod 64)]
      else [byte (240 + r div 262144), byte (128 + (r div 4096) mod 64),
            byte (128 + (r div 64) mod 64), byte (128 + r mod 64)])"

fun intOf :: "gval \<Rightarrow> int" where
  "intOf (VInt k n) = n"
| "intOf v = 0"

text \<open>\<open>Value.Convert\<close>, called only when \<open>ConvertibleTo\<close> holds.\<close>

fun Convert :: "gval \<Rightarrow> gtype \<Rightarrow> gval" where
  "Convert (VInt k n) (TInt k') = VInt k' (wrap k' n)"
| "Convert (VInt k n) TString = VString (encodeRune n)"
| "Convert (VSliceNil e) TString = VString []"
| "Convert (VSlice e vs) TString =
     (if e = TInt KUint8 then VString (map (\<lambda>v. byte (intOf v)) vs)
      else VString (concat (map (\<lambda>v. encodeRune (intOf v)) vs)))"
| "Convert (VChan d e c) (TChan d' e') = VChan d' e' c"
| "Convert v t = v"

subsection \<open>Type names\<close>

fun natString :: "nat \<Rightarrow> string" where
  "natString n =
     (if n < 10 then [char_of (48 + n)] else natString (n div 10) @ [char_of (48 + n mod 10)])"

declare natString.simps [simp del]

fun ikindString :: "ikind \<Rightarrow> string" where
  "ikindString KInt = ''int''" | "ikindString KInt8 = ''int8''" | "ikindString KInt16 = ''int16''"
| "ikindString KInt32 = ''int32''" | "ikindString KInt64 = ''int64''"
| "ikindString KUint = ''uint''" | "ikindString KUint8 = ''uint8''" | "ikindString KUint16 = ''uint16''"
| "ikindString KUint32 = ''uint32''" | "ikindString KUint64 = ''uint64''"

text \<open>\<open>Type.String\<close>; a struct type prints as its name.\<close>

fun typeString :: "gtype \<Rightarrow> string" where
  "typeString TBool = ''bool''"
| "typeString (TInt k) = ikindString k"
| "typeString TString = ''string''"
| "typeString (TChan BothDir e) = ''chan '' @ typeString e"
| "typeString (TChan RecvDir e) = ''<-chan '' @ typeString e"
| "typeString (TChan SendDir e) = ''chan<- '' @ typeString e"
| "typeString (TPtr e) = ''*'' @ typeString e"
| "typeString (TSlice e) = ''[]'' @ typeString e"
| "typeString (TArray n e) = ''['' @ natString n @ '']'' @ typeString e"
| "typeString (TMap k e) = ''map['' @ typeString k @ '']'' @ typeString e"
| "typeString (TStruct n fs) = n"
| "typeString TInterface = ''interface {}''"

subsection \<open>Errors and panics\<close>

text \<open>
  An error is a message (\<open>errors.New\<close>, \<open>fmt.Errorf\<close>) or the join of several errors
  (\<open>errors.Join\<close>), whose message is the messages of its parts, one per line.
  A Go \<open>error\<close> variable is a \<open>gerror option\<close>, \<open>None\<close> being nil.
\<close>

datatype gerror = ErrorString string | JoinError "gerror list"

fun joinLines :: "string list \<Rightarrow> string" where
  "joinLines [] = []"
| "joinLines [s] = s"
| "joinLines (s # t # ss) = s @ [CHR 0x0A] @ joinLines (t # ss)"

fun Error :: "gerror \<Rightarrow> string" where
  "Error (ErrorString s) = s"
| "Error (JoinError es) = joinLines (map Error es)"

definition Join :: "gerror option \<Rightarrow> gerror \<Rightarrow> gerror option" where
  "Join err e = Some (JoinError (case err of None \<Rightarrow> [e] | Some x \<Rightarrow> [x, e]))"

definition errNotSlice :: gerror where "errNotSlice = ErrorString ''not a slice''"
definition errNotMap :: gerror where "errNotMap = ErrorString ''not a map''"
definition errNotStruct :: gerror where "errNotStruct = ErrorString ''not a struct''"
definition errNotArrayOrSlice :: gerror where
  "errNotArrayOrSlice = ErrorString ''not an array or slice''"

definition DefaultTagName :: string where
  "DefaultTagName = ''structs''"

text \<open>A call either panics or returns.\<close>

datatype 'a result = Panic string | Ret 'a

section \<open>Tags\<close>

text \<open>\<open>StructTag.Get\<close>: the value stored under a key, empty when the key is absent.\<close>

definition Tag_Get :: "(string \<times> string) list \<Rightarrow> string \<Rightarrow> string" where
  "Tag_Get tag key = (case map_of tag key of None \<Rightarrow> [] | Some v \<Rightarrow> v)"

fun splitComma :: "string \<Rightarrow> string list" where
  "splitComma [] = [[]]"
| "splitComma (c # cs) =
     (if c = CHR '','' then [] # splitComma cs
      else (case splitComma cs of [] \<Rightarrow> [[c]] | w # ws \<Rightarrow> (c # w) # ws))"

text \<open>
  Modelled from the spec: \<open>parseTag\<close> and \<open>tagOptions.Has\<close> (file \<open>tags.go\<close>).
  The tag is split on its commas; the text before the first comma is the name, the
  remaining tokens are the options, all verbatim; \<open>Has\<close> is exact membership.
\<close>

definition parseTag :: "string \<Rightarrow> string \<times> string list" where
  "parseTag tag = (case splitComma tag of [] \<Rightarrow> ([], []) | n # opts \<Rightarrow> (n, opts))"

definition Has :: "string list \<Rightarrow> string \<Rightarrow> bool" where
  "Has opts key = (key \<in> set opts)"

section \<open>The struct handle and its field set\<close>

datatype Struct = Struct (raw: gval) (rvalue: gval) (TagName: string)

text \<open>\<open>structVal\<close> follows pointers down to a struct and panics on anything else.\<close>

fun structVal :: "gval \<Rightarrow> gval result" where
  "structVal (VPtr v) = structVal v"
| "structVal (VStruct n fvs) = Ret (VStruct n fvs)"
| "structVal v = Panic ''not struct''"

definition New :: "gval \<Rightarrow> Struct result" where
  "New s = (case structVal s of Panic p \<Rightarrow> Panic p | Ret v \<Rightarrow> Ret (Struct s v DefaultTagName))"

text \<open>The fields of a struct value with their current values, in declaration order.\<close>

fun fieldsOf :: "gval \<Rightarrow> (sfield \<times> gval) list" where
  "fieldsOf (VStruct n fvs) = fvs"
| "fieldsOf v = []"

text \<open>
  \<open>Value.FieldByName\<close> for the name of a direct field: the first field of that name
  with its current value.
\<close>

definition FieldByName :: "gval \<Rightarrow> string \<Rightarrow> (sfield \<times> gval) option" where
  "FieldByName s name = find (\<lambda>fv. Name (fst fv) = name) (fieldsOf s)"

text \<open>
  \<open>structFields\<close>: the loop skips a field with a non-empty \<open>PkgPath\<close> and a field
  whose tag under the handle's key is exactly \<open>-\<close>.
\<close>

definition structFields :: "Struct \<Rightarrow> sfield list" where
  "structFields s =
     filter (\<lambda>field. \<not> PkgPath field \<noteq> [] \<and> \<not> Tag_Get (Tag field) (TagName s) = ''-'')
       (map fst (fieldsOf (rvalue s)))"

text \<open>
  A \<open>Field\<close> pairs the descriptor with the field's value; \<open>defaultTag\<close> is never read
  by the converters.
\<close>

datatype Field = Field (fvalue: gval) (ffield: sfield)

definition IsEmbedded :: "Field \<Rightarrow> bool" where
  "IsEmbedded f = Anonymous (ffield f)"

definition IsExported :: "Field \<Rightarrow> bool" where
  "IsExported f = (PkgPath (ffield f) = [])"

definition FName :: "Field \<Rightarrow> string" where
  "FName f = Name (ffield f)"

text \<open>\<open>Field.Kind\<close> is the kind of the field's static type.\<close>

definition FKind :: "Field \<Rightarrow> kind" where
  "FKind f = Kind (Type (ffield f))"

section \<open>The forward converter\<close>

type_synonym gomap = "(gval \<times> gval) list"

text \<open>
  \<open>v := reflect.ValueOf(val.Interface()); if v.Kind() == reflect.Ptr { v = v.Elem() }\<close>:
  the value behind at most one pointer; behind a nil pointer there is no value.
\<close>

fun derefOnce :: "gval \<Rightarrow> gval" where
  "derefOnce (VPtr v) = v"
| "derefOnce (VPtrNil e) = VNil"
| "derefOnce v = v"

definition IsStruct :: "gval \<Rightarrow> bool" where
  "IsStruct s =
     (let v = derefOnce s
      in if ValueKind v = InvalidKind then False else ValueKind v = StructKind)"

text \<open>\<open>Value.String\<close> of a map key: the string itself, or a description of the type.\<close>

definition keyString :: "gval \<Rightarrow> string" where
  "keyString k =
     (case k of VString s \<Rightarrow> s
      | _ \<Rightarrow> (case TypeOf k of None \<Rightarrow> ''<invalid Value>''
               | Some t \<Rightarrow> ''<'' @ typeString t @ '' Value>''))"

text \<open>The type assertion \<open>finalVal.(map[string]any)\<close>; \<open>None\<close> is its panic.\<close>

fun assertMapStringAny :: "gval \<Rightarrow> gomap option" where
  "assertMapStringAny (VMap k e m) = (if k = TString \<and> e = TInterface then Some m else None)"
| "assertMapStringAny (VMapNil k e) = (if k = TString \<and> e = TInterface then Some [] else None)"
| "assertMapStringAny v = None"

text \<open>\<open>for k := range m { out[k] = m[k] }\<close>\<close>

definition mergeInto :: "gomap \<Rightarrow> gomap \<Rightarrow> gomap" where
  "mergeInto m out = fold (\<lambda>kv acc. AList.update (fst kv) (snd kv) acc) m out"

text \<open>
  The element type the map case of \<open>nested\<close> looks at: the element type of the
  field's static type, behind at most one pointer.
\<close>

definition mapElemOf :: "gtype \<Rightarrow> gtype" where
  "mapElemOf t =
     (if Kind t \<in> {PtrKind, ArrayKind, MapKind, SliceKind, ChanKind} then
        (case Elem t of None \<Rightarrow> t
         | Some e \<Rightarrow> (if Kind e = PtrKind then (case Elem e of None \<Rightarrow> e | Some e' \<Rightarrow> e') else e))
      else t)"

definition isStructOrStructSlice :: "gtype \<Rightarrow> bool" where
  "isStructOrStructSlice mapElem =
     (Kind mapElem = StructKind \<or>
      (Kind mapElem = SliceKind \<and> (case Elem mapElem of None \<Rightarrow> False | Some e \<Rightarrow> Kind e = StructKind)))"

definition isStructOrStructPtr :: "gtype \<Rightarrow> bool" where
  "isStructOrStructPtr e =
     (\<not> (Kind e \<noteq> StructKind \<and>
         \<not> (Kind e = PtrKind \<and> (case Elem e of None \<Rightarrow> False | Some e' \<Rightarrow> Kind e' = StructKind))))"

text \<open>
  \<open>FillMap\<close>, \<open>Map\<close> and \<open>nested\<close>.  The parameter \<open>str\<close> stands for the
  user's \<open>String\<close> methods: the text a value renders to when its type implements
  \<open>fmt.Stringer\<close>.  \<open>FillMap_field\<close> is one iteration of the loop of \<open>FillMap\<close>,
  \<open>nested_entries\<close> and \<open>nested_elems\<close> are the two loops of \<open>nested\<close>.  A nil
  output map is \<open>None\<close>.  Map keys are visited in the order of the list.
\<close>


definition fwd_measure where
  "fwd_measure x =
     (case x of
        Inl (Inl (str, s, out)) \<Rightarrow> (4 * size (rvalue s) + 2, 0)
      | Inl (Inr (Inl (str, s, fields, out))) \<Rightarrow> (4 * size (rvalue s) + 1, Suc (length fields))
      | Inl (Inr (Inr (str, s, field, out))) \<Rightarrow> (4 * size (rvalue s) + 1, 0)
      | Inr (Inl (Inl (str, s))) \<Rightarrow> (4 * size (rvalue s) + 3, 0)
      | Inr (Inl (Inr (str, s, t, val))) \<Rightarrow> (4 * size val + 4, 0)
      | Inr (Inr (Inl (str, s, e, m, m'))) \<Rightarrow> (4 * size_list (size_prod size size) m + 5, 0)
      | Inr (Inr (Inr (str, s, e, xs))) \<Rightarrow> (4 * size_list size xs + 5, 0))"

function
  Struct_FillMap :: "(gval \<Rightarrow> string option) \<Rightarrow> Struct \<Rightarrow> gomap option \<Rightarrow> gomap option result" and
  FillMap_fields :: "(gval \<Rightarrow> string option) \<Rightarrow> Struct \<Rightarrow> sfield list \<Rightarrow> gomap \<Rightarrow> gomap result" and
  FillMap_field :: "(gval \<Rightarrow> string option) \<Rightarrow> Struct \<Rightarrow> sfield \<Rightarrow> gomap \<Rightarrow> gomap result" and
  Struct_Map :: "(gval \<Rightarrow> string option) \<Rightarrow> Struct \<Rightarrow> gomap result" and
  nested :: "(gval \<Rightarrow> string option) \<Rightarrow> Struct \<Rightarrow> gtype \<Rightarrow> gval \<Rightarrow> gval result" and
  nested_entries :: "(gval \<Rightarrow> string option) \<Rightarrow> Struct \<Rightarrow> gtype \<Rightarrow> gomap \<Rightarrow> gomap \<Rightarrow> gomap result" and
  nested_elems :: "(gval \<Rightarrow> string option) \<Rightarrow> Struct \<Rightarrow> gtype \<Rightarrow> gval list \<Rightarrow> gval list result"
where
  "Struct_FillMap str s out =
     (case out of None \<Rightarrow> Ret None
      | Some m \<Rightarrow> (case FillMap_fields str s (structFields s) m of
                    Panic p \<Rightarrow> Panic p | Ret m' \<Rightarrow> Ret (Some m')))"
| "FillMap_fields str s [] out = Ret out"
| "FillMap_fields str s (field # fields) out =
     (case FillMap_field str s field out of
        Panic p \<Rightarrow> Panic p
      | Ret out' \<Rightarrow> FillMap_fields str s fields out')"
| "FillMap_field str s field out =
     (case FieldByName (rvalue s) (Name field) of
        None \<Rightarrow> Panic ''reflect: call of reflect.Value.Type on zero Value''
      | Some fv \<Rightarrow>
          (let val = snd fv;
               tagName = fst (parseTag (Tag_Get (Tag field) (TagName s)));
               tagOpts = snd (parseTag (Tag_Get (Tag field) (TagName s)));
               name = (if tagName \<noteq> [] then tagName else Name field)
           in if Has tagOpts ''omitempty'' \<and> DeepEqual val (Zero (Type (fst fv))) then Ret out
              else
                (case (if \<not> Has tagOpts ''omitnested''
                       then (case nested str s (Type (fst fv)) val of
                               Panic p \<Rightarrow> Panic p
                             | Ret finalVal \<Rightarrow>
                                 Ret (finalVal, ValueKind (derefOnce val) \<in> {MapKind, StructKind}))
                       else Ret (val, False)) of
                   Panic p \<Rightarrow> Panic p
                 | Ret fin \<Rightarrow>
                     (if Has tagOpts ''string'' then
                        (case str val of
                           Some text \<Rightarrow> Ret (AList.update (VString name) (VString text) out)
                         | None \<Rightarrow> Ret out)
                      else if snd fin \<and> Has tagOpts ''flatten'' then
                        (case assertMapStringAny (fst fin) of
                           None \<Rightarrow> Panic ''interface conversion: interface {} is not map[string]interface {}''
                         | Some m \<Rightarrow> Ret (mergeInto m out))
                      else Ret (AList.update (VString name) (fst fin) out)))))"
| "Struct_Map str s =
     (case Struct_FillMap str s (Some []) of
        Panic p \<Rightarrow> Panic p
      | Ret None \<Rightarrow> Ret []
      | Ret (Some out) \<Rightarrow> Ret out)"
| "nested str s t val =
     (if ValueKind (derefOnce val) = StructKind then
        (case New val of
           Panic p \<Rightarrow> Panic p
         | Ret n \<Rightarrow>
             (case Struct_Map str (Struct (raw n) (rvalue n) (TagName s)) of
                Panic p \<Rightarrow> Panic p
              | Ret m \<Rightarrow> (if length m = 0 then Ret val else Ret (VMap TString TInterface m))))
      else if ValueKind (derefOnce val) = MapKind then
        (if isStructOrStructSlice (mapElemOf t) then
           (case val of
              VMap k e m \<Rightarrow>
                (case nested_entries str s e m [] of
                   Panic p \<Rightarrow> Panic p
                 | Ret m' \<Rightarrow> Ret (VMap TString TInterface m'))
            | VMapNil k e \<Rightarrow> Ret (VMap TString TInterface [])
            | _ \<Rightarrow> Panic ''reflect: call of reflect.Value.Len on ptr Value'')
         else Ret val)
      else if ValueKind (derefOnce val) \<in> {SliceKind, ArrayKind} then
        (if Kind t = InterfaceKind then Ret val
         else (case Elem t of
                 None \<Rightarrow> Panic ''reflect: Elem of invalid type''
               | Some e \<Rightarrow>
                   (if \<not> isStructOrStructPtr e then Ret val
                    else (case val of
                            VSlice e' vs \<Rightarrow>
                              (case nested_elems str s e' vs of
                                 Panic p \<Rightarrow> Panic p
                               | Ret slices \<Rightarrow> Ret (VSlice TInterface slices))
                          | VSliceNil e' \<Rightarrow> Ret (VSlice TInterface [])
                          | VArray e' vs \<Rightarrow>
                              (case nested_elems str s e' vs of
                                 Panic p \<Rightarrow> Panic p
                               | Ret slices \<Rightarrow> Ret (VSlice TInterface slices))
                          | _ \<Rightarrow> Panic ''reflect: call of reflect.Value.Len on ptr Value''))))
      else Ret val)"
| "nested_entries str s e [] m' = Ret m'"
| "nested_entries str s e (kv # m) m' =
     (case nested str s e (snd kv) of
        Panic p \<Rightarrow> Panic p
      | Ret x \<Rightarrow> nested_entries str s e m (AList.update (VString (keyString (fst kv))) x m'))"
| "nested_elems str s e [] = Ret []"
| "nested_elems str s e (x # xs) =
     (case nested str s e x of
        Panic p \<Rightarrow> Panic p
      | Ret y \<Rightarrow> (case nested_elems str s e xs of
                    Panic p \<Rightarrow> Panic p
                  | Ret ys \<Rightarrow> Ret (y # ys)))"
  by pat_completeness auto

termination
proof -
  have sv: "size w \<le> size v" if "structVal v = Ret w" for v w
    using that by (induction v rule: structVal.induct) auto
  have fs: "size v < Suc (size_list (size_prod g size) fvs)" if "find P fvs = Some (f, v)"
    for P fvs f v and g :: "sfield \<Rightarrow> nat"
    using that by (induction fvs) (auto split: if_splits)
  have fb: "size v < size s" if "FieldByName s name = Some (f, v)" for s name f v
    using that fs unfolding FieldByName_def by (cases s) (auto dest: fs)
  show ?thesis
    apply (relation "inv_image (less_than <*lex*> less_than) fwd_measure")
    apply (auto simp: fwd_measure_def New_def split: result.splits dest!: sv fb)
    done
qed

section \<open>Zero checks\<close>

text \<open>
  \<open>Struct.IsZero\<close> and \<open>Struct.HasZero\<close> with their loops, and the package-level
  \<open>IsZero\<close> and \<open>HasZero\<close> they call on a nested struct.
\<close>


definition zero_measure where
  "zero_measure x =
     (case x of
        Inl s \<Rightarrow> (4 * size (rvalue s) + 2, 0)
      | Inr (Inl (s, fields)) \<Rightarrow> (4 * size (rvalue s) + 1, length fields)
      | Inr (Inr v) \<Rightarrow> (4 * size v + 3, 0))"

function
  Struct_IsZero :: "Struct \<Rightarrow> bool result" and
  IsZero_fields :: "Struct \<Rightarrow> sfield list \<Rightarrow> bool result" and
  IsZero :: "gval \<Rightarrow> bool result"
where
  "Struct_IsZero s = IsZero_fields s (structFields s)"
| "IsZero_fields s [] = Ret True"
| "IsZero_fields s (field # fields) =
     (case FieldByName (rvalue s) (Name field) of
        None \<Rightarrow> Panic ''reflect: call of reflect.Value.Interface on zero Value''
      | Some fv \<Rightarrow>
          (let val = snd fv;
               tagOpts = snd (parseTag (Tag_Get (Tag field) (TagName s)))
           in if IsStruct val \<and> \<not> Has tagOpts ''omitnested'' then
                (case IsZero val of
                   Panic p \<Rightarrow> Panic p
                 | Ret ok \<Rightarrow> (if \<not> ok then Ret False else IsZero_fields s fields))
              else if \<not> DeepEqual val (Zero (Type (fst fv))) then Ret False
              else IsZero_fields s fields))"
| "IsZero v = (case New v of Panic p \<Rightarrow> Panic p | Ret n \<Rightarrow> Struct_IsZero n)"
  by pat_completeness auto

termination
proof -
  have sv: "size w \<le> size v" if "structVal v = Ret w" for v w
    using that by (induction v rule: structVal.induct) auto
  have fs: "size v < Suc (size_list (size_prod g size) fvs)" if "find P fvs = Some (f, v)"
    for P fvs f v and g :: "sfield \<Rightarrow> nat"
    using that by (induction fvs) (auto split: if_splits)
  have fb: "size v < size s" if "FieldByName s name = Some (f, v)" for s name f v
    using that fs unfolding FieldByName_def by (cases s) (auto dest: fs)
  show ?thesis
    apply (relation "inv_image (less_than <*lex*> less_than) zero_measure")
    apply (auto simp: zero_measure_def New_def split: result.splits dest!: sv fb)
    done
qed


function
  Struct_HasZero :: "Struct \<Rightarrow> bool result" and
  HasZero_fields :: "Struct \<Rightarrow> sfield list \<Rightarrow> bool result" and
  HasZero :: "gval \<Rightarrow> bool result"
where
  "Struct_HasZero s = HasZero_fields s (structFields s)"
| "HasZero_fields s [] = Ret False"
| "HasZero_fields s (field # fields) =
     (case FieldByName (rvalue s) (Name field) of
        None \<Rightarrow> Panic ''reflect: call of reflect.Value.Interface on zero Value''
      | Some fv \<Rightarrow>
          (let val = snd fv;
               tagOpts = snd (parseTag (Tag_Get (Tag field) (TagName s)))
           in if IsStruct val \<and> \<not> Has tagOpts ''omitnested'' then
                (case HasZero val of
                   Panic p \<Rightarrow> Panic p
                 | Ret ok \<Rightarrow> (if ok then Ret True else HasZero_fields s fields))
              else if DeepEqual val (Zero (Type (fst fv))) then Ret True
              else HasZero_fields s fields))"
| "HasZero v = (case New v of Panic p \<Rightarrow> Panic p | Ret n \<Rightarrow> Struct_HasZero n)"
  by pat_completeness auto

termination
proof -
  have sv: "size w \<le> size v" if "structVal v = Ret w" for v w
    using that by (induction v rule: structVal.induct) auto
  have fs: "size v < Suc (size_list (size_prod g size) fvs)" if "find P fvs = Some (f, v)"
    for P fvs f v and g :: "sfield \<Rightarrow> nat"
    using that by (induction fvs) (auto split: if_splits)
  have fb: "size v < size s" if "FieldByName s name = Some (f, v)" for s name f v
    using that fs unfolding FieldByName_def by (cases s) (auto dest: fs)
  show ?thesis
    apply (relation "inv_image (less_than <*lex*> less_than) zero_measure")
    apply (auto simp: zero_measure_def New_def split: result.splits dest!: sv fb)
    done
qed

section \<open>The reverse converter\<close>

text \<open>
  The reverse converter writes through \<open>reflect.Value\<close>s.  Such a value is modelled
  by its static type together with the value stored there; a function that writes
  returns the new stored value.  The flag \<open>settable\<close> is \<open>Value.CanSet\<close>: the value
  is addressable and was not reached through an unexported field.
\<close>

fun fieldsOfType :: "gtype \<Rightarrow> sfield list" where
  "fieldsOfType (TStruct n fs) = fs"
| "fieldsOfType t = []"

text \<open>\<open>Value.Field(i)\<close>: the static type and the value of the i-th field.\<close>

definition Value_Field :: "gtype \<Rightarrow> gval \<Rightarrow> nat \<Rightarrow> (sfield \<times> gval) option" where
  "Value_Field t s i =
     (if i < length (fieldsOfType t) \<and> i < length (fieldsOf s)
      then Some (fieldsOfType t ! i, snd (fieldsOf s ! i)) else None)"

fun fieldIndex :: "sfield list \<Rightarrow> string \<Rightarrow> nat option" where
  "fieldIndex [] name = None"
| "fieldIndex (f # fs) name =
     (if Name f = name then Some 0 else map_option Suc (fieldIndex fs name))"

text \<open>\<open>Value.FieldByName\<close> on a struct of static type \<open>t\<close>.\<close>

definition Value_FieldByName :: "gtype \<Rightarrow> gval \<Rightarrow> string \<Rightarrow> (sfield \<times> gval) option" where
  "Value_FieldByName t s name =
     (case fieldIndex (fieldsOfType t) name of None \<Rightarrow> None | Some i \<Rightarrow> Value_Field t s i)"

text \<open>Writing the i-th field of a struct value, and the field of a given name.\<close>

fun storeField :: "gval \<Rightarrow> nat \<Rightarrow> gval \<Rightarrow> gval" where
  "storeField (VStruct n fvs) i v = VStruct n (fvs[i := (fst (fvs ! i), v)])"
| "storeField s i v = s"

definition storeFieldByName :: "gtype \<Rightarrow> gval \<Rightarrow> string \<Rightarrow> gval \<Rightarrow> gval" where
  "storeFieldByName t s name v =
     (case fieldIndex (fieldsOfType t) name of None \<Rightarrow> s | Some i \<Rightarrow> storeField s i v)"

text \<open>
  The value a \<open>Set\<close> stores when the source type is assignable to the target type:
  a channel takes the direction of the target type, every other value is unchanged.
\<close>

fun assignTo :: "gval \<Rightarrow> gtype \<Rightarrow> gval" where
  "assignTo (VChan d e c) (TChan d' e') = VChan d' e' c"
| "assignTo v t = v"

text \<open>
  \<open>s.Field(index).Set(value)\<close>.  It panics when the struct cannot be set, when the
  field is unexported and when the value's type is not assignable to the field's.
\<close>

definition Field_Set :: "bool \<Rightarrow> gtype \<Rightarrow> gval \<Rightarrow> nat \<Rightarrow> gval \<Rightarrow> gval result" where
  "Field_Set settable t s index v =
     (case Value_Field t s index of
        None \<Rightarrow> Panic ''reflect: Field index out of range''
      | Some fv \<Rightarrow>
          (if \<not> settable then Panic ''reflect: reflect.Value.Set using unaddressable value''
           else if PkgPath (fst fv) \<noteq> [] then
             Panic ''reflect: reflect.Value.Set using value obtained using unexported field''
           else (case TypeOf v of
                   None \<Rightarrow> Panic ''reflect: call of reflect.Value.Set on zero Value''
                 | Some vt \<Rightarrow>
                     (if AssignableTo vt (Type (fst fv))
                      then Ret (storeField s index (assignTo v (Type (fst fv))))
                      else Panic (''reflect.Set: value of type '' @ typeString vt @
                                  '' is not assignable to type '' @ typeString (Type (fst fv)))))))"

text \<open>The loop that applies \<open>modifiedFields\<close>, in the order the entries were staged.\<close>

fun applyModified :: "bool \<Rightarrow> gtype \<Rightarrow> gval \<Rightarrow> (nat \<times> gval) list \<Rightarrow> gval result" where
  "applyModified settable t s [] = Ret s"
| "applyModified settable t s (iv # modifiedFields) =
     (case Field_Set settable t s (fst iv) (snd iv) of
        Panic p \<Rightarrow> Panic p
      | Ret s' \<Rightarrow> applyModified settable t s' modifiedFields)"

text \<open>
  \<open>getFields\<close> on a value of static type \<open>t\<close>: one \<open>Field\<close> for every field of the
  type whose tag is not exactly \<open>-\<close>; behind a pointer it looks at the pointee.
\<close>

definition getFields :: "gtype \<Rightarrow> gval \<Rightarrow> string \<Rightarrow> Field list result" where
  "getFields t v tagName =
     (let tv = (if Kind t = PtrKind
                then (case Elem t of None \<Rightarrow> (t, v) | Some e \<Rightarrow> (e, derefOnce v))
                else (t, v))
      in if Kind (fst tv) \<noteq> StructKind \<or> ValueKind (snd tv) = InvalidKind
         then Panic ''reflect: NumField of non-struct type''
         else Ret (map (\<lambda>field. Field (case Value_FieldByName (fst tv) (snd tv) (Name field) of
                                         None \<Rightarrow> VNil | Some fv \<Rightarrow> snd fv) field)
                     (filter (\<lambda>field. \<not> Tag_Get (Tag field) tagName = ''-'')
                        (fieldsOfType (fst tv)))))"

text \<open>
  \<open>Value.MapIndex\<close>: the entry under a key, \<open>None\<close> for the invalid value of a missing
  key; it panics when the key's type is not assignable to the map's key type.
\<close>

definition MapIndex :: "gval \<Rightarrow> gval \<Rightarrow> gval option result" where
  "MapIndex m key =
     (case (TypeOf m, TypeOf key) of
        (Some (TMap kt vt), Some t) \<Rightarrow>
          (if AssignableTo t kt
           then Ret (case m of VMap kt' vt' entries \<Rightarrow> map_of entries key | _ \<Rightarrow> None)
           else Panic (''reflect.Value.MapIndex: value of type '' @ typeString t @
                       '' is not assignable to type '' @ typeString kt))
      | _ \<Rightarrow> Panic ''reflect: call of reflect.Value.MapIndex on non-map Value'')"

text \<open>
  \<open>toStruct\<close>, \<open>fromValue\<close>, \<open>fromPtr\<close>, \<open>fromSlice\<close>, \<open>fromMap\<close> and \<open>fromArray\<close>.
  Each returns the value its target holds afterwards together with the error.
  \<open>toStruct_fields\<close> is the loop of \<open>toStruct\<close> over the enumerated fields, with the
  struct, the error and \<open>modifiedFields\<close> as its state; \<open>fromSlice_elems\<close>,
  \<open>fromMap_entries\<close> and \<open>fromArray_elems\<close> are the loops of the three container
  functions.  The recursion ends because every call either descends into the input
  or keeps the input and descends into the target type.
\<close>

definition rev_measure where
  "rev_measure x =
     (case x of
        Inl (Inl (Inl (settable, inp, t, s))) \<Rightarrow> (size inp, 2 * size t + 1, 0)
      | Inl (Inl (Inr (settable, inp, t, s, fields, err, modifiedFields))) \<Rightarrow>
          (size inp, 2 * size t, length fields)
      | Inl (Inr (Inl (inp, out, t))) \<Rightarrow> (size inp, 2 * size t + 2, 0)
      | Inl (Inr (Inr (Inl (inp, t, out)))) \<Rightarrow> (size inp, 2 * size t + 1, 0)
      | Inl (Inr (Inr (Inr (inp, out, t)))) \<Rightarrow> (size inp, 2 * size t + 1, 0)
      | Inr (Inl (Inl (e, xs, err))) \<Rightarrow> (size_list size xs, 0, 0)
      | Inr (Inl (Inr (inp, out, t))) \<Rightarrow> (size inp, 2 * size t + 1, 0)
      | Inr (Inr (Inl (kt, vt, m, err, output))) \<Rightarrow> (size_list (size_prod size size) m, 0, 0)
      | Inr (Inr (Inr (Inl (inp, out, t)))) \<Rightarrow> (size inp, 2 * size t + 1, 0)
      | Inr (Inr (Inr (Inr (e, n, i, xs, err)))) \<Rightarrow> (size_list size xs, 0::nat, 0::nat))"

function
  toStruct :: "bool \<Rightarrow> gval \<Rightarrow> gtype \<Rightarrow> gval \<Rightarrow> (gval \<times> gerror option) result" and
  toStruct_fields :: "bool \<Rightarrow> gval \<Rightarrow> gtype \<Rightarrow> gval \<Rightarrow> (nat \<times> Field) list \<Rightarrow> gerror option \<Rightarrow>
     (nat \<times> gval) list \<Rightarrow> (gval \<times> gerror option \<times> (nat \<times> gval) list) result" and
  fromValue :: "gval \<Rightarrow> gval \<Rightarrow> gtype \<Rightarrow> (gval \<times> gerror option) result" and
  fromPtr :: "gval \<Rightarrow> gtype \<Rightarrow> gval \<Rightarrow> (gval \<times> gerror option) result" and
  fromSlice :: "gval \<Rightarrow> gval \<Rightarrow> gtype \<Rightarrow> (gval \<times> gerror option) result" and
  fromSlice_elems :: "gtype \<Rightarrow> gval list \<Rightarrow> gerror option \<Rightarrow> (gval list \<times> gerror option) result" and
  fromMap :: "gval \<Rightarrow> gval \<Rightarrow> gtype \<Rightarrow> (gval \<times> gerror option) result" and
  fromMap_entries :: "gtype \<Rightarrow> gtype \<Rightarrow> gomap \<Rightarrow> gerror option \<Rightarrow> gomap \<Rightarrow>
     (gomap \<times> gerror option) result" and
  fromArray :: "gval \<Rightarrow> gval \<Rightarrow> gtype \<Rightarrow> (gval \<times> gerror option) result" and
  fromArray_elems :: "gtype \<Rightarrow> nat \<Rightarrow> nat \<Rightarrow> gval list \<Rightarrow> gerror option \<Rightarrow>
     (gval list \<times> gerror option) result"
where
  "toStruct settable inp t s =
     (if inp = VNil then Ret (s, Some (ErrorString ''input data is nil''))
      else if ValueKind inp \<noteq> MapKind then Ret (s, Some errNotMap)
      else if Kind t = PtrKind then
        (if \<not> settable then Panic ''reflect: reflect.Value.Set using unaddressable value''
         else (case Elem t of
                 None \<Rightarrow> Panic ''reflect: Elem of invalid type''
               | Some e \<Rightarrow>
                   (if Kind e \<noteq> StructKind then Ret (VPtr (Zero e), Some errNotStruct)
                    else (case getFields e (Zero e) DefaultTagName of
                            Panic p \<Rightarrow> Panic p
                          | Ret fields \<Rightarrow>
                              (case toStruct_fields settable inp e (Zero e) (enumerate 0 fields) None [] of
                                 Panic p \<Rightarrow> Panic p
                               | Ret r \<Rightarrow>
                                   (if fst (snd r) = None then
                                      (case applyModified settable e (fst r) (snd (snd r)) of
                                         Panic p \<Rightarrow> Panic p
                                       | Ret s' \<Rightarrow> Ret (VPtr s', None))
                                    else Ret (VPtr (fst r), fst (snd r))))))))
      else if Kind t \<noteq> StructKind then Ret (s, Some errNotStruct)
      else (case getFields t s DefaultTagName of
              Panic p \<Rightarrow> Panic p
            | Ret fields \<Rightarrow>
                (case toStruct_fields settable inp t s (enumerate 0 fields) None [] of
                   Panic p \<Rightarrow> Panic p
                 | Ret r \<Rightarrow>
                     (if fst (snd r) = None then
                        (case applyModified settable t (fst r) (snd (snd r)) of
                           Panic p \<Rightarrow> Panic p
                         | Ret s' \<Rightarrow> Ret (s', None))
                      else Ret (fst r, fst (snd r))))))"
| "toStruct_fields settable inp t s [] err modifiedFields = Ret (s, err, modifiedFields)"
| "toStruct_fields settable inp t s (ifield # fields) err modifiedFields =
     (let i = fst ifield; field = snd ifield; name = FName field
      in case Value_FieldByName t s name of
           None \<Rightarrow> Panic ''reflect: call of reflect.Value.Type on zero Value''
         | Some fv \<Rightarrow>
             (if IsEmbedded field then
                (case toStruct (settable \<and> PkgPath (fst fv) = []) inp (Type (fst fv)) (snd fv) of
                   Panic p \<Rightarrow> Panic p
                 | Ret r \<Rightarrow>
                     toStruct_fields settable inp t (storeFieldByName t s name (fst r)) fields
                       (case snd r of None \<Rightarrow> err | Some e \<Rightarrow> Join err e) modifiedFields)
              else if \<not> IsExported field then
                toStruct_fields settable inp t s fields err modifiedFields
              else if FKind field = StructKind then
                (case toStruct settable inp (Type (fst fv)) (snd fv) of
                   Panic p \<Rightarrow> Panic p
                 | Ret r \<Rightarrow>
                     toStruct_fields settable inp t (storeFieldByName t s name (fst r)) fields
                       (case snd r of None \<Rightarrow> err | Some e \<Rightarrow> Join err e) modifiedFields)
              else if FKind field = InterfaceKind then
                toStruct_fields settable inp t s fields
                  (Join err (ErrorString (''interface not supported:('' @ name @ '')''))) modifiedFields
              else
                (case MapIndex inp (VString name) of
                   Panic p \<Rightarrow> Panic p
                 | Ret None \<Rightarrow> toStruct_fields settable inp t s fields err modifiedFields
                 | Ret (Some v) \<Rightarrow>
                     (case fromValue v (Zero (Type (fst fv))) (Type (fst fv)) of
                        Panic p \<Rightarrow> Panic p
                      | Ret r \<Rightarrow>
                          (case snd r of
                             Some e \<Rightarrow>
                               toStruct_fields settable inp t s fields
                                 (Join err (ErrorString (Error e @ '':('' @ name @ '')''))) modifiedFields
                           | None \<Rightarrow>
                               toStruct_fields settable inp t s fields err
                                 (AList.update i (fst r) modifiedFields))))))"
| "fromValue inp out t =
     (if Kind t = PtrKind then fromPtr inp t out
      else if Kind t = StructKind then toStruct True inp t out
      else if Kind t = SliceKind then fromSlice inp out t
      else if Kind t = MapKind then fromMap inp out t
      else if Kind t = ArrayKind then fromArray inp out t
      else (case TypeOf inp of
              None \<Rightarrow> Panic ''reflect: call of reflect.Value.Type on zero Value''
            | Some inputType \<Rightarrow>
                (case TypeOf out of
                   None \<Rightarrow> Panic ''reflect: call of reflect.Value.Type on zero Value''
                 | Some outputType \<Rightarrow>
                     (if inputType = outputType then Ret (inp, None)
                      else if AssignableTo inputType outputType then Ret (assignTo inp outputType, None)
                      else if ConvertibleTo inputType outputType then Ret (Convert inp outputType, None)
                      else Ret (out, Some (ErrorString (''type mismatch: '' @ typeString outputType @
                                  '' and '' @ typeString inputType @ '' are incompatible'')))))))"
| "fromPtr inp t out =
     (case Elem t of
        None \<Rightarrow> Panic ''reflect: Elem of invalid type''
      | Some e \<Rightarrow>
          (case fromValue inp (Zero e) e of
             Panic p \<Rightarrow> Panic p
           | Ret r \<Rightarrow> (case snd r of Some err \<Rightarrow> Ret (out, Some err) | None \<Rightarrow> Ret (VPtr (fst r), None))))"
| "fromSlice inp out t =
     (if ValueKind inp \<noteq> SliceKind then Ret (out, Some errNotSlice)
      else (case Elem t of
              None \<Rightarrow> Panic ''reflect.MakeSlice of non-slice type''
            | Some e \<Rightarrow>
                (case inp of
                   VSlice e' xs \<Rightarrow>
                     (case fromSlice_elems e xs None of
                        Panic p \<Rightarrow> Panic p
                      | Ret r \<Rightarrow> (if snd r = None then Ret (VSlice e (fst r), None) else Ret (out, snd r)))
                 | _ \<Rightarrow> Ret (VSlice e [], None))))"
| "fromSlice_elems e [] err = Ret ([], err)"
| "fromSlice_elems e (x # xs) err =
     (if x = VNil then Panic ''reflect: call of reflect.Value.Interface on zero Value''
      else (case fromValue x (Zero e) e of
              Panic p \<Rightarrow> Panic p
            | Ret r \<Rightarrow>
                (case snd r of
                   Some e' \<Rightarrow>
                     (case fromSlice_elems e xs (Join err e') of
                        Panic p \<Rightarrow> Panic p
                      | Ret rs \<Rightarrow> Ret (Zero e # fst rs, snd rs))
                 | None \<Rightarrow>
                     (case fromSlice_elems e xs err of
                        Panic p \<Rightarrow> Panic p
                      | Ret rs \<Rightarrow> Ret (fst r # fst rs, snd rs)))))"
| "fromMap inp out t =
     (if ValueKind inp \<noteq> MapKind then Ret (out, Some errNotMap)
      else (case t of
              TMap kt vt \<Rightarrow>
                (case inp of
                   VMap kt' vt' m \<Rightarrow>
                     (case fromMap_entries kt vt m None [] of
                        Panic p \<Rightarrow> Panic p
                      | Ret r \<Rightarrow> (if snd r = None then Ret (VMap kt vt (fst r), None) else Ret (out, snd r)))
                 | _ \<Rightarrow> Ret (VMap kt vt [], None))
            | _ \<Rightarrow> Panic ''reflect.MakeMap of non-map type''))"
| "fromMap_entries kt vt [] err output = Ret (output, err)"
| "fromMap_entries kt vt (kv # m) err output =
     (case TypeOf (fst kv) of
        None \<Rightarrow> Panic ''reflect: call of reflect.Value.Interface on zero Value''
      | Some keyType \<Rightarrow>
          (case fromValue (fst kv) (Zero keyType) keyType of
             Panic p \<Rightarrow> Panic p
           | Ret rk \<Rightarrow>
               (case snd rk of
                  Some e \<Rightarrow> fromMap_entries kt vt m (Join err e) output
                | None \<Rightarrow>
                    (if snd kv = VNil then Panic ''reflect: call of reflect.Value.Interface on zero Value''
                     else (case fromValue (snd kv) (Zero vt) vt of
                             Panic p \<Rightarrow> Panic p
                           | Ret rv \<Rightarrow>
                               (case snd rv of
                                  Some e \<Rightarrow> fromMap_entries kt vt m (Join err e) output
                                | None \<Rightarrow>
                                    (case TypeOf (fst rk) of
                                       None \<Rightarrow> Panic ''reflect: call of reflect.Value.SetMapIndex on zero Value''
                                     | Some outKeyType \<Rightarrow>
                                         (if AssignableTo outKeyType kt then
                                            fromMap_entries kt vt m err
                                              (AList.update (assignTo (fst rk) kt) (fst rv) output)
                                          else Panic (''reflect.Value.SetMapIndex: value of type '' @
                                                 typeString outKeyType @ '' is not assignable to type '' @
                                                 typeString kt)))))))))"
| "fromArray inp out t =
     (if ValueKind inp \<noteq> ArrayKind \<and> ValueKind inp \<noteq> SliceKind then Ret (out, Some errNotArrayOrSlice)
      else (case t of
              TArray n e \<Rightarrow>
                (case inp of
                   VSlice e' xs \<Rightarrow>
                     (case fromArray_elems e n 0 xs None of
                        Panic p \<Rightarrow> Panic p
                      | Ret r \<Rightarrow>
                          (if snd r = None
                           then Ret (VArray e (fst r @ replicate (n - length xs) (Zero e)), None)
                           else Ret (out, snd r)))
                 | VArray e' xs \<Rightarrow>
                     (case fromArray_elems e n 0 xs None of
                        Panic p \<Rightarrow> Panic p
                      | Ret r \<Rightarrow>
                          (if snd r = None
                           then Ret (VArray e (fst r @ replicate (n - length xs) (Zero e)), None)
                           else Ret (out, snd r)))
                 | _ \<Rightarrow> Ret (VArray e (replicate n (Zero e)), None))
            | _ \<Rightarrow> Panic ''reflect: Index of non-array type''))"
| "fromArray_elems e n i [] err = Ret ([], err)"
| "fromArray_elems e n i (x # xs) err =
     (if \<not> i < n then Panic ''reflect: array index out of range''
      else (case fromValue x (Zero e) e of
              Panic p \<Rightarrow> Panic p
            | Ret r \<Rightarrow>
                (case fromArray_elems e n (Suc i) xs
                        (case snd r of
                           None \<Rightarrow> err
                         | Some e' \<Rightarrow> Join err (ErrorString (Error e' @ '':('' @ (''@'' @ natString i) @ '')''))) of
                   Panic p \<Rightarrow> Panic p
                 | Ret rs \<Rightarrow> Ret (fst r # fst rs, snd rs))))"
  by pat_completeness auto
termination
proof -
  have el: "size e < size t" if "Elem t = Some e" for t e
    using that by (cases t) auto
  have fi: "i < length fs" if "fieldIndex fs name = Some i" for fs name i
    using that by (induction fs arbitrary: i) (auto split: if_splits)
  have nt: "size (Type f) < size f" for f
    by (cases f) auto
  have fb: "size (Type f) < size t" if "Value_FieldByName t s name = Some (f, v)" for t s name f v
  proof (cases t)
    case (TStruct n fs)
    from that TStruct obtain i where i: "i < length fs" "f = fs ! i"
      by (auto simp: Value_FieldByName_def Value_Field_def split: option.splits if_splits dest: fi)
    then have "f \<in> set fs" by simp
    then have "size f \<le> size_list size fs" by (simp add: size_list_estimation')
    with nt [of f] TStruct show ?thesis by simp
  qed (use that in \<open>auto simp: Value_FieldByName_def\<close>)
  have mo: "size v < Suc (size_list (size_prod size size) m)" if "map_of m k = Some v"
    for m :: gomap and k v
    using that by (induction m) (auto split: if_splits)
  have mi: "size v < size inp" if "MapIndex inp k = Ret (Some v)" for inp k v
    using that by (cases inp) (auto simp: MapIndex_def split: option.splits gtype.splits if_splits dest: mo)
  show ?thesis
    apply (relation "inv_image (less_than <*lex*> less_than <*lex*> less_than) rev_measure")
    apply (auto simp: rev_measure_def dest!: el fb mi)
    done
qed

section \<open>Package-level functions\<close>

definition Map :: "(gval \<Rightarrow> string option) \<Rightarrow> gval \<Rightarrow> gomap result" where
  "Map str s = (case New s of Panic p \<Rightarrow> Panic p | Ret n \<Rightarrow> Struct_Map str n)"

definition FillMap :: "(gval \<Rightarrow> string option) \<Rightarrow> gval \<Rightarrow> gomap option \<Rightarrow> gomap option result" where
  "FillMap str s out = (case New s of Panic p \<Rightarrow> Panic p | Ret n \<Rightarrow> Struct_FillMap str n out)"

text \<open>Putting a struct back behind the pointers \<open>structVal\<close> went through.\<close>

fun setStructVal :: "gval \<Rightarrow> gval \<Rightarrow> gval" where
  "setStructVal (VPtr p) v = VPtr (setStructVal p v)"
| "setStructVal s v = v"

fun isPtr :: "gval \<Rightarrow> bool" where
  "isPtr (VPtr p) = True"
| "isPtr s = False"

text \<open>
  \<open>FillStruct\<close>.  The struct \<open>structVal\<close> finds is addressable exactly when the caller
  passed a pointer.  The result is the target after the call and the error of
  \<open>toStruct\<close>; with an error the Go function ends in \<open>panic(err)\<close>, which leaves the
  target as returned here.
\<close>

definition FillStruct :: "gval \<Rightarrow> gval \<Rightarrow> (gval \<times> gerror option) result" where
  "FillStruct m s =
     (case structVal s of
        Panic p \<Rightarrow> Panic p
      | Ret v \<Rightarrow>
          (case TypeOf v of
             None \<Rightarrow> Panic ''not struct''
           | Some t \<Rightarrow>
               (case toStruct (isPtr s) m t v of
                  Panic p \<Rightarrow> Panic p
                | Ret r \<Rightarrow> Ret (setStructVal s (fst r), snd r))))"

section \<open>Notions used by the properties\<close>



section \<open>Properties\<close>

text \<open>
  The defining equations of the converters are unfolded on demand only.
\<close>

declare Struct_FillMap.simps [simp del] FillMap_fields.simps [simp del]
  FillMap_field.simps [simp del] Struct_Map.simps [simp del] nested.simps [simp del]
  nested_entries.simps [simp del] nested_elems.simps [simp del]

declare Struct_IsZero.simps [simp del] IsZero_fields.simps [simp del] IsZero.simps [simp del]
  Struct_HasZero.simps [simp del] HasZero_fields.simps [simp del] HasZero.simps [simp del]

declare toStruct.simps [simp del] toStruct_fields.simps [simp del] fromValue.simps [simp del]
  fromPtr.simps [simp del] fromSlice.simps [simp del] fromSlice_elems.simps [simp del]
  fromMap.simps [simp del] fromMap_entries.simps [simp del] fromArray.simps [simp del]
  fromArray_elems.simps [simp del]


lemmas zero_simps = Struct_IsZero.simps IsZero_fields.simps IsZero.simps
  Struct_HasZero.simps HasZero_fields.simps HasZero.simps

lemmas reverse_simps = toStruct.simps toStruct_fields.simps fromValue.simps fromPtr.simps
  fromSlice.simps fromSlice_elems.simps fromMap.simps fromMap_entries.simps fromArray.simps
  fromArray_elems.simps

lemmas reflect_defs = getFields_def Value_FieldByName_def Value_Field_def Field_Set_def
  FName_def IsEmbedded_def IsExported_def FKind_def MapIndex_def Tag_Get_def DefaultTagName_def
  ValueKind_def storeFieldByName_def enumerate_eq_zip FieldByName_def structFields_def
  parseTag_def Has_def DeepEqual_def New_def Let_def

subsection \<open>Zero checks on an empty field set\<close>

text \<open>
  Claim C10.  For a record whose computed field set is empty (it has no field, or
  every field is unexported or excluded by the tag \<open>-\<close>), \<open>IsZero\<close> returns true and
  \<open>HasZero\<close> returns false, both for the handle's methods and for the package-level
  functions: at this edge the two are not negations of each other.
\<close>

theorem empty_field_set_IsZero_HasZero:
  assumes "New v = Ret s" and "structFields s = []"
  shows "IsZero v = Ret True \<and> HasZero v = Ret False \<and>
         Struct_IsZero s = Ret True \<and> Struct_HasZero s = Ret False"
  using assms by (simp add: zero_simps)

theorem empty_field_set_IsZero_HasZero_witness:
  "New (VStruct ''T'' [(StructField ''a'' TBool [] ''main'' False, VBool True),
                       (StructField ''B'' TString [(''structs'', ''-'')] [] False, VString ''x'')])
     = Ret (Struct (VStruct ''T'' [(StructField ''a'' TBool [] ''main'' False, VBool True),
                       (StructField ''B'' TString [(''structs'', ''-'')] [] False, VString ''x'')])
                   (VStruct ''T'' [(StructField ''a'' TBool [] ''main'' False, VBool True),
                       (StructField ''B'' TString [(''structs'', ''-'')] [] False, VString ''x'')])
                   DefaultTagName) \<and>
   IsZero (VStruct ''T'' [(StructField ''a'' TBool [] ''main'' False, VBool True),
                       (StructField ''B'' TString [(''structs'', ''-'')] [] False, VString ''x'')])
     = Ret True \<and>
   HasZero (VStruct ''T'' [(StructField ''a'' TBool [] ''main'' False, VBool True),
                       (StructField ''B'' TString [(''structs'', ''-'')] [] False, VString ''x'')])
     = Ret False"
  using empty_field_set_IsZero_HasZero
    [of "VStruct ''T'' [(StructField ''a'' TBool [] ''main'' False, VBool True),
                       (StructField ''B'' TString [(''structs'', ''-'')] [] False, VString ''x'')]"
        "Struct (VStruct ''T'' [(StructField ''a'' TBool [] ''main'' False, VBool True),
                       (StructField ''B'' TString [(''structs'', ''-'')] [] False, VString ''x'')])
                (VStruct ''T'' [(StructField ''a'' TBool [] ''main'' False, VBool True),
                       (StructField ''B'' TString [(''structs'', ''-'')] [] False, VString ''x'')])
                DefaultTagName"]
  by (simp add: New_def structFields_def Tag_Get_def DefaultTagName_def)

subsection \<open>Coercion of a leaf value\<close>



subsection \<open>Failures before the field loop\<close>




subsection \<open>Atomic commit\<close>

text \<open>
  Claim C1 at a failing input.  The target has a struct field \<open>Inner\<close> with the
  integer field \<open>A\<close>, holding 7, and an integer field \<open>B\<close>, holding 9.  The source
  maps \<open>A\<close> to 1 and \<open>B\<close> to a string.  \<open>Inner\<close> is filled by a recursive call that
  commits \<open>A := 1\<close> on its own; then \<open>B\<close> fails.  The call returns the aggregated
  error, and the target is not what it was before the call: \<open>Inner.A\<close> is 1.
\<close>

theorem toStruct_nested_commit_survives_sibling_error:
  "FillStruct
     (VMap TString TInterface [(VString ''A'', VInt KInt 1), (VString ''B'', VString ''x'')])
     (VPtr (VStruct ''T''
        [(StructField ''Inner'' (TStruct ''Inner'' [StructField ''A'' (TInt KInt) [] [] False]) [] [] False,
          VStruct ''Inner'' [(StructField ''A'' (TInt KInt) [] [] False, VInt KInt 7)]),
         (StructField ''B'' (TInt KInt) [] [] False, VInt KInt 9)]))
   = Ret (VPtr (VStruct ''T''
        [(StructField ''Inner'' (TStruct ''Inner'' [StructField ''A'' (TInt KInt) [] [] False]) [] [] False,
          VStruct ''Inner'' [(StructField ''A'' (TInt KInt) [] [] False, VInt KInt 1)]),
         (StructField ''B'' (TInt KInt) [] [] False, VInt KInt 9)]),
      Some (JoinError [ErrorString ''type mismatch: int and string are incompatible:(B)'']))"
  by (simp add: FillStruct_def reverse_simps reflect_defs Join_def)

subsection \<open>Fields missing from the source\<close>

text \<open>
  Claim C7 at a failing input.  The target has the integer fields \<open>A\<close> (excluded by
  the tag \<open>-\<close>), \<open>B\<close> and \<open>C\<close>, holding 1, 2 and 3; the source has the single key
  \<open>C\<close> with the value 5.  The staged value is stored under the position of \<open>C\<close> among
  the fields that are not excluded, which is 1, and committed to the field of the
  struct at position 1, which is \<open>B\<close>.  The call returns without error; \<open>B\<close>, whose
  name is no key of the source, holds 5, and \<open>C\<close> still holds 3.
\<close>

theorem toStruct_commit_index_shifted_by_excluded_field:
  "FillStruct
     (VMap TString TInterface [(VString ''C'', VInt KInt 5)])
     (VPtr (VStruct ''T''
        [(StructField ''A'' (TInt KInt) [(''structs'', ''-'')] [] False, VInt KInt 1),
         (StructField ''B'' (TInt KInt) [] [] False, VInt KInt 2),
         (StructField ''C'' (TInt KInt) [] [] False, VInt KInt 3)]))
   = Ret (VPtr (VStruct ''T''
        [(StructField ''A'' (TInt KInt) [(''structs'', ''-'')] [] False, VInt KInt 1),
         (StructField ''B'' (TInt KInt) [] [] False, VInt KInt 5),
         (StructField ''C'' (TInt KInt) [] [] False, VInt KInt 3)]),
      None)"
  by (simp add: FillStruct_def reverse_simps reflect_defs Join_def)

subsection \<open>Embedded fields\<close>



subsection \<open>The option omitempty\<close>











end
